theory Spec2Isabelle
  imports Main
begin

section \<open>JavaScript strings\<close>

text \<open>
  A JavaScript string is a finite sequence of UTF-16 code units. A code unit is modelled
  as a natural number, a string as the list of its code units. Property names and the
  string literals of the source are ASCII and are written as HOL strings; \<open>js\<close> turns
  such a literal into its code units.
\<close>

type_synonym jsstring = "nat list"

definition js :: "string \<Rightarrow> jsstring" where
  "js s = map of_char s"

text \<open>
  \<open>String.prototype.split\<close> with a separator of one code unit, the only way the
  source calls it (\<open>value.split(',')\<close>, \<open>file.name.split('.')\<close>): the pieces between
  the occurrences of the separator, in order. The result is never empty; the empty string
  gives one empty piece.
\<close>

fun str_split :: "nat \<Rightarrow> jsstring \<Rightarrow> jsstring list" where
  "str_split sep [] = [[]]"
| "str_split sep (c # cs) =
     (if c = sep then [] # str_split sep cs
      else (case str_split sep cs of
              [] \<Rightarrow> [[c]]
            | piece # pieces \<Rightarrow> (c # piece) # pieces))"

text \<open>
  The code units \<open>String.prototype.trim\<close> removes: ECMAScript's WhiteSpace (TAB, VT, FF,
  ZWNBSP and the Unicode space separators) and LineTerminator (LF, CR, LS, PS).
\<close>

definition is_js_space :: "nat \<Rightarrow> bool" where
  "is_js_space c \<longleftrightarrow>
     c = 9 \<or> c = 10 \<or> c = 11 \<or> c = 12 \<or> c = 13 \<or> c = 32 \<or> c = 160 \<or> c = 5760 \<or>
     (8192 \<le> c \<and> c \<le> 8202) \<or> c = 8232 \<or> c = 8233 \<or> c = 8239 \<or> c = 8287 \<or>
     c = 12288 \<or> c = 65279"

definition str_trim :: "jsstring \<Rightarrow> jsstring" where
  "str_trim s = rev (dropWhile is_js_space (rev (dropWhile is_js_space s)))"

definition comma :: nat where
  "comma = 44"

definition dot :: nat where
  "dot = 46"


text \<open>
  \<open>Array.prototype.pop\<close> read as a value: the last element, \<open>undefined\<close> (here
  \<open>None\<close>) on the empty array. A template literal prints \<open>undefined\<close> as the word.
\<close>

definition arr_pop :: "'a list \<Rightarrow> 'a option" where
  "arr_pop xs = (if xs = [] then None else Some (last xs))"

definition template_str :: "jsstring option \<Rightarrow> jsstring" where
  "template_str v = (case v of None \<Rightarrow> js ''undefined'' | Some s \<Rightarrow> s)"

section \<open>The data model\<close>

text \<open>
  The interface \<open>UserProfile\<close>. A field declared with \<open>?\<close> may be absent
  (\<open>undefined\<close>, or \<open>null\<close> when it comes from a nullable column): \<open>None\<close>.
\<close>

record UserProfile =
  id' :: jsstring
  first_name :: jsstring
  last_name :: jsstring
  date_of_birth :: jsstring
  country :: jsstring
  religion :: "jsstring option"
  blood_group :: "jsstring option"
  marital_status :: "jsstring option"
  institution :: "jsstring option"
  hobbies :: "jsstring list option"
  avatar_url :: "jsstring option"

text \<open>A browser \<open>File\<close>: its name and its bytes.\<close>

record File =
  file_name :: jsstring
  file_bytes :: "nat list"

text \<open>The four state cells of the component \<open>UserForm\<close>.\<close>

record form =
  profile :: UserProfile
  isEditing :: bool
  error :: jsstring
  avatarFile :: "File option"

text \<open>The initial values given to \<open>useState\<close>.\<close>

definition UserForm :: form where
  "UserForm =
     \<lparr>profile =
        \<lparr>id' = [], first_name = [], last_name = [], date_of_birth = [], country = [],
         religion = Some [], blood_group = Some [], marital_status = Some [],
         institution = Some [], hobbies = Some [], avatar_url = Some []\<rparr>,
      isEditing = True, error = [], avatarFile = None\<rparr>"

section \<open>The hosted backend\<close>

text \<open>
  The identity provider, the table \<open>profiles\<close> and the bucket \<open>avatars\<close> are reached
  through the platform's client. Every request the components send is recorded in
  \<open>calls\<close>; what the platform answers is a parameter of the model: the signed-in user,
  the rows, the stored objects, the failures it reports and the public URL it issues for
  a path. \<open>console\<close> is what \<open>console.error\<close> has printed.
\<close>

datatype call =
    GetUser
  | Select jsstring
  | Upsert UserProfile
  | Upload jsstring File
  | GetPublicUrl jsstring

record backend =
  session_user :: "jsstring option"
  profiles :: "jsstring \<Rightarrow> UserProfile option"
  avatars :: "jsstring \<Rightarrow> File option"
  select_fault :: "jsstring \<Rightarrow> jsstring option"
  upsert_fault :: "UserProfile \<Rightarrow> jsstring option"
  upload_fault :: "jsstring \<Rightarrow> File \<Rightarrow> jsstring option"
  public_url :: "jsstring \<Rightarrow> jsstring"
  calls :: "call list"
  console :: "jsstring list"

text \<open>
  Modelled from the spec: the client operations of the platform, which is no code of
  the repository (section 6, external interfaces): \<open>getCurrentUser\<close>, \<open>fetchOne\<close>
  (a missing row is reported as an error), \<open>upsert\<close> keyed by the owner id,
  \<open>upload\<close> with overwrite, and \<open>resolvePublicUrl\<close>, which always succeeds.
\<close>

definition getUser :: "backend \<Rightarrow> jsstring option \<times> backend" where
  "getUser b = (session_user b, b\<lparr>calls := calls b @ [GetUser]\<rparr>)"

definition no_rows :: jsstring where
  "no_rows = js ''JSON object requested, multiple (or no) rows returned''"

definition select_single ::
    "jsstring \<Rightarrow> backend \<Rightarrow> (UserProfile option \<times> jsstring option) \<times> backend" where
  "select_single uid b =
     ((case select_fault b uid of
         Some e \<Rightarrow> (None, Some e)
       | None \<Rightarrow>
           (case profiles b uid of
              None \<Rightarrow> (None, Some no_rows)
            | Some row \<Rightarrow> (Some row, None))),
      b\<lparr>calls := calls b @ [Select uid]\<rparr>)"

definition upsert :: "UserProfile \<Rightarrow> backend \<Rightarrow> jsstring option \<times> backend" where
  "upsert row b =
     (case upsert_fault b row of
        Some e \<Rightarrow> (Some e, b\<lparr>calls := calls b @ [Upsert row]\<rparr>)
      | None \<Rightarrow>
          (None, b\<lparr>profiles := (profiles b)(id' row \<mapsto> row),
                   calls := calls b @ [Upsert row]\<rparr>))"

definition upload :: "jsstring \<Rightarrow> File \<Rightarrow> backend \<Rightarrow> jsstring option \<times> backend" where
  "upload path file b =
     (case upload_fault b path file of
        Some e \<Rightarrow> (Some e, b\<lparr>calls := calls b @ [Upload path file]\<rparr>)
      | None \<Rightarrow>
          (None, b\<lparr>avatars := (avatars b)(path \<mapsto> file),
                   calls := calls b @ [Upload path file]\<rparr>))"

definition getPublicUrl :: "jsstring \<Rightarrow> backend \<Rightarrow> jsstring \<times> backend" where
  "getPublicUrl path b = (public_url b path, b\<lparr>calls := calls b @ [GetPublicUrl path]\<rparr>)"

section \<open>The component UserForm\<close>

text \<open>
  Each handler is a function from the backend and the state cells to the backend and the
  state cells once its promises have settled. What a handler throws is a value.
\<close>

datatype exn =
    Error jsstring
  | StorageError jsstring
  | PostgrestError jsstring

fun message :: "exn \<Rightarrow> jsstring" where
  "message (Error m) = m"
| "message (StorageError m) = m"
| "message (PostgrestError m) = m"

text \<open>
  \<open>loadProfile\<close>: without a user nothing happens; an error of the query (a missing row
  too) is printed on the console and nothing else happens; a row replaces the draft and
  ends edit mode.
\<close>

definition loadProfile :: "backend \<Rightarrow> form \<Rightarrow> backend \<times> form" where
  "loadProfile b s =
     (case getUser b of
        (None, b1) \<Rightarrow> (b1, s)
      | (Some uid, b1) \<Rightarrow>
          (case select_single uid b1 of
             ((_, Some e), b2) \<Rightarrow>
               (b2\<lparr>console := console b2 @ [js ''Error loading profile:'' @ e]\<rparr>, s)
           | ((Some row, None), b2) \<Rightarrow> (b2, s\<lparr>profile := row, isEditing := False\<rparr>)
           | ((None, None), b2) \<Rightarrow> (b2, s)))"

text \<open>
  \<open>handleAvatarUpload\<close>: the constants \<open>fileExt\<close> and \<open>filePath\<close> of its body, then
  the upload and the public URL. \<open>Inl\<close> is the error it throws, \<open>Inr None\<close> the
  \<open>null\<close> it returns without a user.
\<close>

definition fileExt :: "File \<Rightarrow> jsstring option" where
  "fileExt file = arr_pop (str_split dot (file_name file))"

definition filePath :: "jsstring \<Rightarrow> File \<Rightarrow> jsstring" where
  "filePath uid file = uid @ js ''/avatar.'' @ template_str (fileExt file)"

definition handleAvatarUpload ::
    "File \<Rightarrow> backend \<Rightarrow> (exn + jsstring option) \<times> backend" where
  "handleAvatarUpload file b =
     (case getUser b of
        (None, b1) \<Rightarrow> (Inr None, b1)
      | (Some uid, b1) \<Rightarrow>
          (case upload (filePath uid file) file b1 of
             (Some uploadError, b2) \<Rightarrow> (Inl (StorageError uploadError), b2)
           | (None, b2) \<Rightarrow>
               (case getPublicUrl (filePath uid file) b2 of
                  (publicUrl, b3) \<Rightarrow> (Inr (Some publicUrl), b3))))"

text \<open>
  The body of the \<open>try\<close> of \<open>handleSubmit\<close>: the exception it ends with, if any, the
  backend and the state cells at that point.
\<close>

definition handleSubmit_try :: "backend \<Rightarrow> form \<Rightarrow> exn option \<times> backend \<times> form" where
  "handleSubmit_try b s =
     (case getUser b of
        (None, b1) \<Rightarrow> (Some (Error (js ''No user logged in'')), b1, s)
      | (Some uid, b1) \<Rightarrow>
          (case (case avatarFile s of
                   None \<Rightarrow> (Inr (avatar_url (profile s)), b1)
                 | Some file \<Rightarrow> handleAvatarUpload file b1) of
             (Inl err, b2) \<Rightarrow> (Some err, b2, s)
           | (Inr avatarUrl, b2) \<Rightarrow>
               (case upsert ((profile s)\<lparr>id' := uid, avatar_url := avatarUrl\<rparr>) b2 of
                  (Some upsertError, b3) \<Rightarrow> (Some (PostgrestError upsertError), b3, s)
                | (None, b3) \<Rightarrow>
                    (case loadProfile b3 (s\<lparr>isEditing := False\<rparr>) of
                       (b4, s4) \<Rightarrow> (None, b4, s4)))))"

text \<open>\<open>handleSubmit\<close>: clear the message, run the body, show what it threw.\<close>

definition handleSubmit :: "backend \<Rightarrow> form \<Rightarrow> backend \<times> form" where
  "handleSubmit b s =
     (case handleSubmit_try b (s\<lparr>error := []\<rparr>) of
        (None, b', s') \<Rightarrow> (b', s')
      | (Some err, b', s') \<Rightarrow> (b', s'\<lparr>error := message err\<rparr>))"

text \<open>
  \<open>handleChange\<close>: the computed key \<open>[name]\<close> written out for the keys of
  \<open>UserProfile\<close>. A name that is no key leaves every field of the interface as it was.
\<close>

definition set_field :: "string \<Rightarrow> jsstring \<Rightarrow> UserProfile \<Rightarrow> UserProfile" where
  "set_field name v p =
     (if name = ''id'' then p\<lparr>id' := v\<rparr>
      else if name = ''first_name'' then p\<lparr>first_name := v\<rparr>
      else if name = ''last_name'' then p\<lparr>last_name := v\<rparr>
      else if name = ''date_of_birth'' then p\<lparr>date_of_birth := v\<rparr>
      else if name = ''country'' then p\<lparr>country := v\<rparr>
      else if name = ''religion'' then p\<lparr>religion := Some v\<rparr>
      else if name = ''blood_group'' then p\<lparr>blood_group := Some v\<rparr>
      else if name = ''marital_status'' then p\<lparr>marital_status := Some v\<rparr>
      else if name = ''institution'' then p\<lparr>institution := Some v\<rparr>
      else if name = ''avatar_url'' then p\<lparr>avatar_url := Some v\<rparr>
      else p)"

definition handleChange :: "string \<Rightarrow> jsstring \<Rightarrow> form \<Rightarrow> form" where
  "handleChange name v s =
     (if name = ''hobbies''
      then s\<lparr>profile := (profile s)\<lparr>hobbies := Some (map str_trim (str_split comma v))\<rparr>\<rparr>
      else s\<lparr>profile := set_field name v (profile s)\<rparr>)"

text \<open>The button Edit: \<open>setIsEditing(true)\<close>.\<close>

definition beginEdit :: "form \<Rightarrow> form" where
  "beginEdit s = s\<lparr>isEditing := True\<rparr>"

text \<open>
  \<open>handleFileChange\<close>: \<open>e.target.files\<close> is \<open>null\<close> or a list; only a first file
  is recorded.
\<close>

definition handleFileChange :: "File list option \<Rightarrow> form \<Rightarrow> form" where
  "handleFileChange files s =
     (case files of
        Some (file # _) \<Rightarrow> s\<lparr>avatarFile := Some file\<rparr>
      | _ \<Rightarrow> s)"

section \<open>The component ViewProfile\<close>

text \<open>
  The one state cell of \<open>ViewProfile\<close> is the profile, \<open>null\<close> until it is loaded.
  Its own \<open>loadProfile\<close> is the one of the form without the edit mode.
\<close>

definition ViewProfile_loadProfile ::
    "backend \<Rightarrow> UserProfile option \<Rightarrow> backend \<times> UserProfile option" where
  "ViewProfile_loadProfile b p =
     (case getUser b of
        (None, b1) \<Rightarrow> (b1, p)
      | (Some uid, b1) \<Rightarrow>
          (case select_single uid b1 of
             ((_, Some e), b2) \<Rightarrow>
               (b2\<lparr>console := console b2 @ [js ''Error loading profile:'' @ e]\<rparr>, p)
           | ((Some row, None), b2) \<Rightarrow> (b2, Some row)
           | ((None, None), b2) \<Rightarrow> (b2, p)))"

text \<open>What the view puts under the label Hobbies: a bulleted list or a text.\<close>

datatype node = Text jsstring | UL "jsstring list"

definition ViewProfile_hobbies :: "UserProfile \<Rightarrow> node" where
  "ViewProfile_hobbies p =
     (case hobbies p of
        None \<Rightarrow> Text (js ''No hobbies specified'')
      | Some hs \<Rightarrow>
          (if length hs > 0 then UL hs else Text (js ''No hobbies specified'')))"

section \<open>The specification's wording of the hobbies field\<close>

text \<open>
  Update Field on \<open>hobbies\<close> as the specification words it: the text is cut at every
  comma (\<open>spec_segments\<close>: the part before the first comma, then the segments of what
  follows it), and each segment loses the white space around it (\<open>spec_trim\<close>: drop the
  leading white space, then cut off as many code units as there is trailing white space).
\<close>

function spec_segments :: "jsstring \<Rightarrow> jsstring list" where
  "spec_segments t =
     (case dropWhile (\<lambda>c. c \<noteq> comma) t of
        [] \<Rightarrow> [takeWhile (\<lambda>c. c \<noteq> comma) t]
      | _ # rest \<Rightarrow> takeWhile (\<lambda>c. c \<noteq> comma) t # spec_segments rest)"
  by pat_completeness auto
termination
proof (relation "measure length")
  show "wf (measure length)" by simp
next
  fix t :: jsstring and x rest
  assume "dropWhile (\<lambda>c. c \<noteq> comma) t = x # rest"
  then have "length (dropWhile (\<lambda>c. c \<noteq> comma) t) = Suc (length rest)" by simp
  moreover have "length (dropWhile (\<lambda>c. c \<noteq> comma) t) \<le> length t"
    by (rule length_dropWhile_le)
  ultimately show "(rest, t) \<in> measure length" by simp
qed

declare spec_segments.simps [simp del]

definition spec_trim :: "jsstring \<Rightarrow> jsstring" where
  "spec_trim s =
     (let t = dropWhile is_js_space s
      in take (length t - length (takeWhile is_js_space (rev t))) t)"

definition spec_hobbies :: "jsstring \<Rightarrow> jsstring list" where
  "spec_hobbies text = map spec_trim (spec_segments text)"

section \<open>Notions the statements use\<close>

text \<open>
  The inputs of the form that carry the attribute \<open>required\<close>: first name, last name,
  date of birth and country. The browser submits the form only when they are filled in.
\<close>

definition required_fields_set :: "UserProfile \<Rightarrow> bool" where
  "required_fields_set p \<longleftrightarrow>
     first_name p \<noteq> [] \<and> last_name p \<noteq> [] \<and> date_of_birth p \<noteq> [] \<and> country p \<noteq> []"

text \<open>The requests sent between two states of the backend.\<close>

definition new_calls :: "backend \<Rightarrow> backend \<Rightarrow> call list" where
  "new_calls b b' = drop (length (calls b)) (calls b')"

text \<open>The entries of a hobbies sequence that are not the empty string.\<close>

definition nonempty_entries :: "jsstring list option \<Rightarrow> jsstring list" where
  "nonempty_entries h = (case h of None \<Rightarrow> [] | Some hs \<Rightarrow> filter (\<lambda>e. e \<noteq> []) hs)"

section \<open>A concrete session\<close>

text \<open>
  The user \<open>U1\<close> is signed in and has no row yet; nothing fails. The variants: nobody is
  signed in, the bucket refuses every upload, the table refuses every upsert.
\<close>

definition platform_U1 :: backend where
  "platform_U1 =
     \<lparr>session_user = Some (js ''U1''), profiles = (\<lambda>_. None), avatars = (\<lambda>_. None),
      select_fault = (\<lambda>_. None), upsert_fault = (\<lambda>_. None), upload_fault = (\<lambda>_ _. None),
      public_url = (\<lambda>path. js ''https://cdn.example/avatars/'' @ path),
      calls = [], console = []\<rparr>"

definition platform_guest :: backend where
  "platform_guest = platform_U1\<lparr>session_user := None\<rparr>"

definition platform_upload_down :: backend where
  "platform_upload_down = platform_U1\<lparr>upload_fault := (\<lambda>_ _. Some (js ''Payload too large''))\<rparr>"

definition platform_upsert_down :: backend where
  "platform_upsert_down = platform_U1\<lparr>upsert_fault := (\<lambda>_. Some (js ''permission denied''))\<rparr>"

text \<open>The draft after the four required inputs have been typed into the fresh form.\<close>

definition ada_draft :: form where
  "ada_draft =
     handleChange ''country'' (js ''UK'')
       (handleChange ''date_of_birth'' (js ''1815-12-10'')
          (handleChange ''last_name'' (js ''Lovelace'')
             (handleChange ''first_name'' (js ''Ada'') UserForm)))"

text \<open>
  The same draft after the hobbies input has been emptied, its save, and the profile the
  read-only view loads after that save.
\<close>

definition ada_no_hobbies :: form where
  "ada_no_hobbies = handleChange ''hobbies'' [] ada_draft"

definition viewed_no_hobbies :: "UserProfile option" where
  "viewed_no_hobbies =
     snd (ViewProfile_loadProfile (fst (handleSubmit platform_U1 ada_no_hobbies)) None)"

definition photo_png :: File where
  "photo_png = \<lparr>file_name = js ''photo.png'', file_bytes = [137, 80, 78, 71]\<rparr>"

definition photo_jpg :: File where
  "photo_jpg = \<lparr>file_name = js ''photo.jpg'', file_bytes = [255, 216, 255]\<rparr>"

definition ada_with_photo :: form where
  "ada_with_photo = handleFileChange (Some [photo_png]) ada_draft"

text \<open>
  A save with \<open>photo.png\<close> pending; then the same save again; or else the user goes
  back to edit mode, selects \<open>photo.jpg\<close> and saves.
\<close>

definition first_save :: "backend \<times> form" where
  "first_save = handleSubmit platform_U1 ada_with_photo"

definition save_again :: "backend \<times> form" where
  "save_again = handleSubmit (fst first_save) (snd first_save)"

definition save_jpg :: "backend \<times> form" where
  "save_jpg =
     handleSubmit (fst first_save)
       (handleFileChange (Some [photo_jpg]) (beginEdit (snd first_save)))"

section \<open>Splitting and trimming\<close>

lemma str_split_not_Nil: "str_split sep s \<noteq> []"
  by (induction s) (auto split: list.splits)

lemma spec_segments_Nil: "spec_segments [] = [[]]"
  by (subst spec_segments.simps) simp

lemma spec_segments_Cons:
  "spec_segments (c # cs) =
     (if c = comma then [] # spec_segments cs
      else (case spec_segments cs of [] \<Rightarrow> [[c]] | p # ps \<Rightarrow> (c # p) # ps))"
proof (cases "c = comma")
  case True
  then show ?thesis by (subst spec_segments.simps) simp
next
  case False
  let ?P = "\<lambda>c. c \<noteq> comma"
  have tw: "takeWhile ?P (c # cs) = c # takeWhile ?P cs"
    and dw: "dropWhile ?P (c # cs) = dropWhile ?P cs"
    using False by simp_all
  show ?thesis
  proof (cases "dropWhile ?P cs")
    case Nil
    have "spec_segments cs = [takeWhile ?P cs]"
      by (subst spec_segments.simps) (simp only: Nil list.case)
    moreover have "spec_segments (c # cs) = [c # takeWhile ?P cs]"
      by (subst spec_segments.simps) (simp only: tw dw Nil list.case)
    ultimately show ?thesis using False by simp
  next
    case (Cons x rest)
    have "spec_segments cs = takeWhile ?P cs # spec_segments rest"
      by (subst spec_segments.simps) (simp only: Cons list.case)
    moreover have "spec_segments (c # cs) = (c # takeWhile ?P cs) # spec_segments rest"
      by (subst spec_segments.simps) (simp only: tw dw Cons list.case)
    ultimately show ?thesis using False by simp
  qed
qed

lemma str_split_spec_segments: "str_split comma t = spec_segments t"
  by (induction t) (simp_all add: spec_segments_Nil spec_segments_Cons)

lemma rev_dropWhile_rev:
  "rev (dropWhile P (rev t)) = take (length t - length (takeWhile P (rev t))) t"
proof -
  have "rev t = takeWhile P (rev t) @ dropWhile P (rev t)" by simp
  then have "t = rev (dropWhile P (rev t)) @ rev (takeWhile P (rev t))"
    by (metis rev_append rev_rev_ident)
  moreover have "length (rev (dropWhile P (rev t))) = length t - length (takeWhile P (rev t))"
    by (metis add_diff_cancel_left' length_append length_rev takeWhile_dropWhile_id)
  ultimately show ?thesis
    by (metis append_eq_conv_conj)
qed

lemma str_trim_spec_trim: "str_trim s = spec_trim s"
  by (simp add: str_trim_def spec_trim_def Let_def rev_dropWhile_rev)

section \<open>Update Field on hobbies\<close>

text \<open>
  C2. For every raw hobbies text, \<open>handleChange\<close> on the field \<open>hobbies\<close> stores the
  ordered sequence obtained by splitting the text on commas and trimming the white space
  around each segment; the text \<open>chess, reading,  hiking \<close> gives exactly
  \<open>chess\<close>, \<open>reading\<close>, \<open>hiking\<close>, in this order.
\<close>

theorem handleChange_hobbies_split_trim:
  "hobbies (profile (handleChange ''hobbies'' v s)) = Some (spec_hobbies v) \<and>
   hobbies (profile (handleChange ''hobbies'' (js ''chess, reading,  hiking '') s)) =
     Some [js ''chess'', js ''reading'', js ''hiking'']"
proof
  show "hobbies (profile (handleChange ''hobbies'' v s)) = Some (spec_hobbies v)"
    by (simp add: handleChange_def spec_hobbies_def str_split_spec_segments str_trim_spec_trim)
  show "hobbies (profile (handleChange ''hobbies'' (js ''chess, reading,  hiking '') s)) =
     Some [js ''chess'', js ''reading'', js ''hiking'']"
    by (simp add: handleChange_def js_def comma_def str_trim_def is_js_space_def)
qed

text \<open>
  C3. \<open>handleChange\<close> on the field \<open>hobbies\<close> with the empty text stores a sequence of
  one element, the empty string, and not the empty sequence.
\<close>

theorem handleChange_hobbies_empty_text:
  "hobbies (profile (handleChange ''hobbies'' [] s)) = Some [[]] \<and>
   hobbies (profile (handleChange ''hobbies'' [] s)) \<noteq> Some []"
  by (simp add: handleChange_def str_trim_def)

section \<open>Facts about the handlers\<close>

lemmas platform_defs =
  getUser_def select_single_def upsert_def upload_def getPublicUrl_def

lemmas handler_defs =
  loadProfile_def handleAvatarUpload_def handleSubmit_try_def handleSubmit_def

lemmas example_defs =
  platform_U1_def platform_guest_def platform_upload_down_def platform_upsert_down_def
  ada_draft_def ada_with_photo_def photo_png_def photo_jpg_def UserForm_def
  handleChange_def set_field_def handleFileChange_def beginEdit_def

lemmas path_defs =
  filePath_def fileExt_def arr_pop_def template_str_def dot_def

text \<open>No handler but \<open>handleFileChange\<close> writes the pending file.\<close>

lemma loadProfile_avatarFile: "avatarFile (snd (loadProfile b s)) = avatarFile s"
  by (simp add: loadProfile_def platform_defs split: option.splits)

lemma handleSubmit_avatarFile: "avatarFile (snd (handleSubmit b s)) = avatarFile s"
  by (simp add: handler_defs platform_defs split: option.splits)

lemma handleChange_avatarFile: "avatarFile (handleChange name v s) = avatarFile s"
  by (simp add: handleChange_def)

text \<open>A save changes neither who is signed in nor how the platform answers.\<close>

lemma handleSubmit_platform:
  "session_user (fst (handleSubmit b s)) = session_user b \<and>
   select_fault (fst (handleSubmit b s)) = select_fault b \<and>
   upsert_fault (fst (handleSubmit b s)) = upsert_fault b \<and>
   upload_fault (fst (handleSubmit b s)) = upload_fault b \<and>
   public_url (fst (handleSubmit b s)) = public_url b"
  by (simp add: handler_defs platform_defs split: option.splits)

text \<open>With a user and a pending file, a save begins with the upload of that file.\<close>

lemma handleSubmit_uploads_first:
  "session_user b = Some uid \<Longrightarrow> avatarFile s = Some f \<Longrightarrow>
   take 3 (new_calls b (fst (handleSubmit b s))) = [GetUser, GetUser, Upload (filePath uid f) f]"
  by (simp add: new_calls_def handler_defs platform_defs split: option.splits)

text \<open>The body of the \<open>try\<close> writes no state cell before it throws.\<close>

lemma handleSubmit_try_form:
  "handleSubmit_try b s = (Some err, b', s') \<Longrightarrow> s' = s"
  by (auto simp: handleSubmit_try_def handleAvatarUpload_def platform_defs
      split: option.splits prod.splits sum.splits)

text \<open>What it throws is one of three things.\<close>

lemma handleSubmit_try_throws:
  assumes "fst (handleSubmit_try b s) = Some err"
  shows "(session_user b = None \<and> err = Error (js ''No user logged in'')) \<or>
         (\<exists>uid f e. session_user b = Some uid \<and> avatarFile s = Some f \<and>
            upload_fault b (filePath uid f) f = Some e \<and> err = StorageError e) \<or>
         (\<exists>uid row e. session_user b = Some uid \<and> upsert_fault b row = Some e \<and>
            err = PostgrestError e)"
  using assms
  by (auto simp: handleSubmit_try_def handleAvatarUpload_def loadProfile_def platform_defs
      split: option.splits prod.splits sum.splits)

text \<open>A save that throws nothing has written the merged row under the user's id.\<close>

lemma save_succeeds:
  assumes "session_user b = Some uid"
    and "fst (handleSubmit_try b (s\<lparr>error := []\<rparr>)) = None"
  shows "profiles (fst (handleSubmit b s)) =
           (profiles b)(uid \<mapsto> (profile s)\<lparr>id' := uid,
              avatar_url := (case avatarFile s of
                               None \<Rightarrow> avatar_url (profile s)
                             | Some f \<Rightarrow> Some (public_url b (filePath uid f)))\<rparr>)"
  using assms
  by (auto simp: handler_defs platform_defs split: option.splits prod.splits sum.splits)

text \<open>Every file has an extension in the sense of the code: the piece after the last dot.\<close>

lemma fileExt_Some: "\<exists>ext. fileExt f = Some ext"
  by (simp add: fileExt_def arr_pop_def str_split_not_Nil)

lemma filePath_eq_iff: "filePath uid g = filePath uid f \<longleftrightarrow> fileExt g = fileExt f"
  using fileExt_Some [of f] fileExt_Some [of g]
  by (auto simp: filePath_def template_str_def)

section \<open>Save, then Load\<close>

text \<open>
  C1, as the specification states it, fails on the field \<open>id\<close>: the fresh draft with the
  four required fields typed in carries the empty id of the initial state, the save
  succeeds, and the profile loaded afterwards carries the id of the user.
\<close>

theorem fresh_draft_id_replaced:
  "required_fields_set (profile ada_draft) \<and>
   fst (handleSubmit_try platform_U1 (ada_draft\<lparr>error := []\<rparr>)) = None \<and>
   id' (profile ada_draft) = [] \<and>
   id' (profile (snd (loadProfile (fst (handleSubmit platform_U1 ada_draft))
                                  (snd (handleSubmit platform_U1 ada_draft))))) = js ''U1'' \<and>
   id' (profile (snd (loadProfile (fst (handleSubmit platform_U1 ada_draft))
                                  (snd (handleSubmit platform_U1 ada_draft))))) \<noteq>
     id' (profile ada_draft)"
  by (simp add: required_fields_set_def example_defs handler_defs platform_defs js_def)

text \<open>
  C1, amended. For every draft with the required fields set, a save that succeeds followed
  by a load whose query does not fail yields a profile equal to the saved draft field for
  field, except the field \<open>id\<close>, which is the id of the signed-in user, and the field
  \<open>avatar_url\<close>, which is the public URL the bucket issues for the upload path when a
  file was pending, and the draft's own value otherwise. The row stored under the user's
  id is that profile, and the form has left edit mode.
\<close>

theorem save_then_load_roundtrip:
  assumes "required_fields_set (profile s)"
    and "session_user b = Some uid"
    and "fst (handleSubmit_try b (s\<lparr>error := []\<rparr>)) = None"
    and "select_fault b uid = None"
    and "handleSubmit b s = (b1, s1)" and "loadProfile b1 s1 = (b2, s2)"
  shows "profile s2 =
           (profile s)\<lparr>id' := uid,
              avatar_url := (case avatarFile s of
                               None \<Rightarrow> avatar_url (profile s)
                             | Some f \<Rightarrow> Some (public_url b (filePath uid f)))\<rparr> \<and>
         profiles b2 uid = Some (profile s2) \<and> \<not> isEditing s2"
proof -
  let ?row = "(profile s)\<lparr>id' := uid,
              avatar_url := (case avatarFile s of
                               None \<Rightarrow> avatar_url (profile s)
                             | Some f \<Rightarrow> Some (public_url b (filePath uid f)))\<rparr>"
  have row: "profiles b1 uid = Some ?row"
    using save_succeeds [OF assms(2) assms(3)] assms(5) by simp
  have u1: "session_user b1 = Some uid" and sf: "select_fault b1 uid = None"
    using handleSubmit_platform [of b s] assms by simp_all
  have "s2 = s1\<lparr>profile := ?row, isEditing := False\<rparr> \<and> profiles b2 = profiles b1"
    using assms(6) row u1 sf by (auto simp: loadProfile_def platform_defs)
  with row show ?thesis by simp
qed

theorem save_then_load_roundtrip_witness:
  "required_fields_set (profile ada_with_photo) \<and>
   session_user platform_U1 = Some (js ''U1'') \<and>
   fst (handleSubmit_try platform_U1 (ada_with_photo\<lparr>error := []\<rparr>)) = None \<and>
   select_fault platform_U1 (js ''U1'') = None \<and>
   profile (snd (loadProfile (fst first_save) (snd first_save))) =
     (profile ada_with_photo)\<lparr>id' := js ''U1'',
        avatar_url := Some (js ''https://cdn.example/avatars/U1/avatar.png'')\<rparr>"
proof -
  have req: "required_fields_set (profile ada_with_photo)"
    by (simp add: required_fields_set_def example_defs js_def)
  have usr: "session_user platform_U1 = Some (js ''U1'')"
    by (simp add: platform_U1_def)
  have ok: "fst (handleSubmit_try platform_U1 (ada_with_photo\<lparr>error := []\<rparr>)) = None"
    by (simp add: example_defs handler_defs platform_defs)
  have sel: "select_fault platform_U1 (js ''U1'') = None"
    by (simp add: platform_U1_def)
  have sav: "handleSubmit platform_U1 ada_with_photo = (fst first_save, snd first_save)"
    by (simp add: first_save_def)
  have lod: "loadProfile (fst first_save) (snd first_save) =
      (fst (loadProfile (fst first_save) (snd first_save)),
       snd (loadProfile (fst first_save) (snd first_save)))"
    by simp
  have pend: "avatarFile ada_with_photo = Some photo_png"
    by (simp add: ada_with_photo_def handleFileChange_def)
  have url: "public_url platform_U1 (filePath (js ''U1'') photo_png) =
      js ''https://cdn.example/avatars/U1/avatar.png''"
    by (simp add: platform_U1_def photo_png_def path_defs js_def)
  show ?thesis
    using save_then_load_roundtrip [OF req usr ok sel sav lod] req usr ok sel
    by (simp add: pend url)
qed

section \<open>The hobbies of the read-only view\<close>

text \<open>
  C4, as the specification states it, fails: the hobbies input emptied by the user gives
  a sequence of one empty string; the draft is saved, the read-only view loads the row,
  which has no non-empty entry, and renders it as a list of one empty item, not as the
  fallback.
\<close>

theorem empty_hobby_rendered_as_list:
  "hobbies (profile ada_no_hobbies) = Some [[]] \<and>
   viewed_no_hobbies = Some ((profile ada_no_hobbies)\<lparr>id' := js ''U1''\<rparr>) \<and>
   nonempty_entries (hobbies (the viewed_no_hobbies)) = [] \<and>
   ViewProfile_hobbies (the viewed_no_hobbies) = UL [[]] \<and>
   ViewProfile_hobbies (the viewed_no_hobbies) \<noteq> Text (js ''No hobbies specified'')"
  by (simp add: viewed_no_hobbies_def ada_no_hobbies_def ViewProfile_loadProfile_def
      example_defs handler_defs platform_defs nonempty_entries_def ViewProfile_hobbies_def
      str_trim_def js_def)

text \<open>
  C4, amended. For every loaded profile, \<open>ViewProfile\<close> renders the fallback
  \<open>No hobbies specified\<close> exactly when the hobbies sequence is absent or has no element;
  so the fallback is shown only when there is no non-empty entry, and a sequence with at
  least one element, empty strings included, is rendered as the enumerated list of its
  elements.
\<close>

theorem ViewProfile_hobbies_fallback:
  "(ViewProfile_hobbies p = Text (js ''No hobbies specified'') \<longleftrightarrow>
      hobbies p = None \<or> hobbies p = Some []) \<and>
   (ViewProfile_hobbies p = Text (js ''No hobbies specified'') \<longrightarrow>
      nonempty_entries (hobbies p) = []) \<and>
   ViewProfile_hobbies (p\<lparr>hobbies := Some (h # hs)\<rparr>) = UL (h # hs)"
  by (auto simp: ViewProfile_hobbies_def nonempty_entries_def split: option.splits)

theorem ViewProfile_hobbies_fallback_witness:
  "ViewProfile_hobbies (profile UserForm) = Text (js ''No hobbies specified'') \<and>
   hobbies (profile UserForm) = Some [] \<and>
   nonempty_entries (hobbies (profile UserForm)) = [] \<and>
   ViewProfile_hobbies ((profile UserForm)\<lparr>hobbies := Some [js ''chess'', []]\<rparr>) =
     UL [js ''chess'', []]"
proof -
  have none: "hobbies (profile UserForm) = Some []"
    by (simp add: UserForm_def)
  show ?thesis
    using ViewProfile_hobbies_fallback [of "profile UserForm" "js ''chess''" "[[]]"] none
    by simp
qed

section \<open>Save without a user\<close>

text \<open>
  C5. When no signed-in user can be resolved, \<open>handleSubmit\<close> fails with the error
  \<open>No user logged in\<close>: the only request it sends asks the identity provider for the
  user, so neither the table nor the bucket is called (no upload, no upsert, no query),
  and rows and objects are as before.
\<close>

theorem handleSubmit_no_user:
  assumes "session_user b = None"
  shows "handleSubmit_try b (s\<lparr>error := []\<rparr>) =
           (Some (Error (js ''No user logged in'')),
            b\<lparr>calls := calls b @ [GetUser]\<rparr>, s\<lparr>error := []\<rparr>) \<and>
         handleSubmit b s =
           (b\<lparr>calls := calls b @ [GetUser]\<rparr>, s\<lparr>error := js ''No user logged in''\<rparr>) \<and>
         new_calls b (fst (handleSubmit b s)) = [GetUser] \<and>
         profiles (fst (handleSubmit b s)) = profiles b \<and>
         avatars (fst (handleSubmit b s)) = avatars b"
  using assms by (simp add: handleSubmit_def handleSubmit_try_def getUser_def new_calls_def)

theorem handleSubmit_no_user_witness:
  "session_user platform_guest = None \<and>
   handleSubmit platform_guest ada_with_photo =
     (platform_guest\<lparr>calls := [GetUser]\<rparr>, ada_with_photo\<lparr>error := js ''No user logged in''\<rparr>) \<and>
   new_calls platform_guest (fst (handleSubmit platform_guest ada_with_photo)) = [GetUser]"
proof -
  have guest: "session_user platform_guest = None"
    by (simp add: platform_guest_def)
  have "calls platform_guest = []"
    by (simp add: platform_guest_def platform_U1_def)
  then show ?thesis
    using handleSubmit_no_user [OF guest, of ada_with_photo] guest
    by (simp add: new_calls_def)
qed

section \<open>Save with a failing upload\<close>

text \<open>
  C6. When a file is pending and its upload fails, \<open>handleSubmit\<close> stops there: after
  the upload it sends no request, in particular no upsert, so the rows of the table, the
  stored avatar URL among them, are unchanged; the message of the failure is shown.
\<close>

theorem handleSubmit_upload_failure:
  assumes "session_user b = Some uid" and "avatarFile s = Some f"
    and "upload_fault b (filePath uid f) f = Some e"
  shows "handleSubmit b s =
           (b\<lparr>calls := calls b @ [GetUser, GetUser, Upload (filePath uid f) f]\<rparr>,
            s\<lparr>error := e\<rparr>) \<and>
         new_calls b (fst (handleSubmit b s)) =
           [GetUser, GetUser, Upload (filePath uid f) f] \<and>
         profiles (fst (handleSubmit b s)) = profiles b \<and>
         error (snd (handleSubmit b s)) = e"
  using assms by (simp add: handler_defs platform_defs new_calls_def)

theorem handleSubmit_upload_failure_witness:
  "session_user platform_upload_down = Some (js ''U1'') \<and>
   avatarFile ada_with_photo = Some photo_png \<and>
   upload_fault platform_upload_down (filePath (js ''U1'') photo_png) photo_png =
     Some (js ''Payload too large'') \<and>
   new_calls platform_upload_down (fst (handleSubmit platform_upload_down ada_with_photo)) =
     [GetUser, GetUser, Upload (js ''U1/avatar.png'') photo_png] \<and>
   profiles (fst (handleSubmit platform_upload_down ada_with_photo)) =
     profiles platform_upload_down \<and>
   error (snd (handleSubmit platform_upload_down ada_with_photo)) = js ''Payload too large''"
proof -
  have usr: "session_user platform_upload_down = Some (js ''U1'')"
    by (simp add: platform_upload_down_def platform_U1_def)
  have pend: "avatarFile ada_with_photo = Some photo_png"
    by (simp add: ada_with_photo_def handleFileChange_def)
  have flt: "upload_fault platform_upload_down (filePath (js ''U1'') photo_png) photo_png =
      Some (js ''Payload too large'')"
    by (simp add: platform_upload_down_def platform_U1_def)
  have path: "filePath (js ''U1'') photo_png = js ''U1/avatar.png''"
    by (simp add: photo_png_def path_defs js_def)
  show ?thesis
    using handleSubmit_upload_failure [OF usr pend flt] usr pend flt
    by (simp add: path new_calls_def)
qed

section \<open>A failed save and the draft\<close>

text \<open>
  C7. Whenever \<open>handleSubmit\<close> fails, that is, whenever the body of its \<open>try\<close> throws,
  the state cells afterwards are those before the save with the message of the failure in
  \<open>error\<close>: the mode is the one before, so a form in edit mode stays in edit mode, and
  every field of the draft is as it was. What is thrown is the error of the missing user,
  of a failed upload or of a failed upsert.
\<close>

theorem handleSubmit_failure_keeps_draft:
  assumes "fst (handleSubmit_try b (s\<lparr>error := []\<rparr>)) = Some err"
  shows "snd (handleSubmit b s) = s\<lparr>error := message err\<rparr> \<and>
         isEditing (snd (handleSubmit b s)) = isEditing s \<and>
         profile (snd (handleSubmit b s)) = profile s \<and>
         error (snd (handleSubmit b s)) = message err \<and>
         ((session_user b = None \<and> err = Error (js ''No user logged in'')) \<or>
          (\<exists>uid f e. session_user b = Some uid \<and> avatarFile s = Some f \<and>
             upload_fault b (filePath uid f) f = Some e \<and> err = StorageError e) \<or>
          (\<exists>uid row e. session_user b = Some uid \<and> upsert_fault b row = Some e \<and>
             err = PostgrestError e))"
proof -
  obtain b' s' where thrown: "handleSubmit_try b (s\<lparr>error := []\<rparr>) = (Some err, b', s')"
    using assms by (cases "handleSubmit_try b (s\<lparr>error := []\<rparr>)") auto
  have "s' = s\<lparr>error := []\<rparr>"
    using thrown by (rule handleSubmit_try_form)
  then have "snd (handleSubmit b s) = s\<lparr>error := message err\<rparr>"
    using thrown by (simp add: handleSubmit_def)
  then show ?thesis
    using handleSubmit_try_throws [OF assms] by simp
qed

theorem handleSubmit_failure_keeps_draft_witness:
  "fst (handleSubmit_try platform_upsert_down (ada_with_photo\<lparr>error := []\<rparr>)) =
     Some (PostgrestError (js ''permission denied'')) \<and>
   snd (handleSubmit platform_upsert_down ada_with_photo) =
     ada_with_photo\<lparr>error := js ''permission denied''\<rparr> \<and>
   fst (handleSubmit_try platform_upload_down (ada_with_photo\<lparr>error := []\<rparr>)) =
     Some (StorageError (js ''Payload too large'')) \<and>
   snd (handleSubmit platform_upload_down ada_with_photo) =
     ada_with_photo\<lparr>error := js ''Payload too large''\<rparr> \<and>
   fst (handleSubmit_try platform_guest (ada_with_photo\<lparr>error := []\<rparr>)) =
     Some (Error (js ''No user logged in'')) \<and>
   snd (handleSubmit platform_guest ada_with_photo) =
     ada_with_photo\<lparr>error := js ''No user logged in''\<rparr> \<and>
   isEditing ada_with_photo"
proof -
  have t1: "fst (handleSubmit_try platform_upsert_down (ada_with_photo\<lparr>error := []\<rparr>)) =
      Some (PostgrestError (js ''permission denied''))"
    by (simp add: example_defs handler_defs platform_defs)
  have t2: "fst (handleSubmit_try platform_upload_down (ada_with_photo\<lparr>error := []\<rparr>)) =
      Some (StorageError (js ''Payload too large''))"
    by (simp add: example_defs handler_defs platform_defs)
  have t3: "fst (handleSubmit_try platform_guest (ada_with_photo\<lparr>error := []\<rparr>)) =
      Some (Error (js ''No user logged in''))"
    by (simp add: example_defs handler_defs platform_defs)
  have ed: "isEditing ada_with_photo"
    by (simp add: example_defs)
  show ?thesis
    using handleSubmit_failure_keeps_draft [OF t1] handleSubmit_failure_keeps_draft [OF t2]
      handleSubmit_failure_keeps_draft [OF t3] t1 t2 t3 ed
    by simp
qed

section \<open>Load without a row\<close>

text \<open>
  C8. When the user is resolved and the table has no row for the user, \<open>loadProfile\<close>
  leaves the state cells as they are; run on the freshly mounted form, it leaves the
  form in edit mode with the draft at its default values and with no message in
  \<open>error\<close>. The failure goes to the console only.
\<close>

theorem loadProfile_no_row:
  assumes "session_user b = Some uid" and "select_fault b uid = None"
    and "profiles b uid = None"
  shows "snd (loadProfile b s) = s \<and>
         snd (loadProfile b UserForm) = UserForm \<and>
         isEditing (snd (loadProfile b UserForm)) \<and>
         error (snd (loadProfile b UserForm)) = [] \<and>
         new_calls b (fst (loadProfile b s)) = [GetUser, Select uid]"
  using assms by (simp add: loadProfile_def platform_defs UserForm_def new_calls_def)

theorem loadProfile_no_row_witness:
  "session_user platform_U1 = Some (js ''U1'') \<and>
   select_fault platform_U1 (js ''U1'') = None \<and>
   profiles platform_U1 (js ''U1'') = None \<and>
   snd (loadProfile platform_U1 UserForm) = UserForm \<and>
   isEditing (snd (loadProfile platform_U1 UserForm)) \<and>
   error (snd (loadProfile platform_U1 UserForm)) = []"
proof -
  have usr: "session_user platform_U1 = Some (js ''U1'')"
    and sel: "select_fault platform_U1 (js ''U1'') = None"
    and row: "profiles platform_U1 (js ''U1'') = None"
    by (simp_all add: platform_U1_def)
  show ?thesis
    using loadProfile_no_row [OF usr sel row, of UserForm] usr sel row
    by (simp add: UserForm_def)
qed

section \<open>The path of the avatar\<close>

text \<open>
  C9, as the specification states it, fails: the path is not the same for every upload
  of an owner. The user \<open>U1\<close> saves with \<open>photo.png\<close> pending, goes back to edit mode,
  selects \<open>photo.jpg\<close> and saves again: the two uploads go to two paths, and the bucket
  holds both objects afterwards.
\<close>

theorem two_extensions_two_objects:
  "session_user platform_U1 = Some (js ''U1'') \<and>
   filePath (js ''U1'') photo_png = js ''U1/avatar.png'' \<and>
   filePath (js ''U1'') photo_jpg = js ''U1/avatar.jpg'' \<and>
   filePath (js ''U1'') photo_jpg \<noteq> filePath (js ''U1'') photo_png \<and>
   avatars (fst save_jpg) (js ''U1/avatar.png'') = Some photo_png \<and>
   avatars (fst save_jpg) (js ''U1/avatar.jpg'') = Some photo_jpg"
  by (simp add: first_save_def save_jpg_def example_defs handler_defs platform_defs js_def
      path_defs)

text \<open>
  C9, amended. For every save with a user and a pending file, the upload goes to the path
  made of the user's id, \<open>/avatar.\<close> and the extension of the file's name, a function of
  these two only; a successful upload stores the file under this path, replacing what was
  there and touching no other path. For one owner, two files have the same path exactly
  when they have the same extension: uploads with the same extension overwrite the stored
  object, uploads with another extension add an object.
\<close>

theorem avatar_path_by_owner_and_extension:
  assumes "session_user b = Some uid" and "avatarFile s = Some f"
    and "upload_fault b (filePath uid f) f = None"
  shows "take 3 (new_calls b (fst (handleSubmit b s))) =
           [GetUser, GetUser, Upload (filePath uid f) f] \<and>
         avatars (fst (handleSubmit b s)) = (avatars b)(filePath uid f \<mapsto> f) \<and>
         (\<exists>ext. fileExt f = Some ext \<and> filePath uid f = uid @ js ''/avatar.'' @ ext) \<and>
         (filePath uid g = filePath uid f \<longleftrightarrow> fileExt g = fileExt f)"
proof (intro conjI)
  show "take 3 (new_calls b (fst (handleSubmit b s))) =
          [GetUser, GetUser, Upload (filePath uid f) f]"
    using assms(1,2) by (rule handleSubmit_uploads_first)
  show "avatars (fst (handleSubmit b s)) = (avatars b)(filePath uid f \<mapsto> f)"
    using assms by (simp add: handler_defs platform_defs split: option.splits)
  show "\<exists>ext. fileExt f = Some ext \<and> filePath uid f = uid @ js ''/avatar.'' @ ext"
    using fileExt_Some [of f] by (auto simp: filePath_def template_str_def)
  show "filePath uid g = filePath uid f \<longleftrightarrow> fileExt g = fileExt f"
    by (rule filePath_eq_iff)
qed

theorem avatar_path_by_owner_and_extension_witness:
  "session_user (fst first_save) = Some (js ''U1'') \<and>
   avatarFile (snd first_save) = Some photo_png \<and>
   upload_fault (fst first_save) (filePath (js ''U1'') photo_png) photo_png = None \<and>
   avatars (fst first_save) = (\<lambda>_. None)(js ''U1/avatar.png'' \<mapsto> photo_png) \<and>
   avatars (fst save_again) = avatars (fst first_save) \<and>
   fileExt photo_png = Some (js ''png'') \<and>
   filePath (js ''U1'') \<lparr>file_name = js ''me.holiday.png'', file_bytes = []\<rparr> =
     filePath (js ''U1'') photo_png"
proof -
  have usr: "session_user (fst first_save) = Some (js ''U1'')"
    using handleSubmit_platform [of platform_U1 ada_with_photo]
    by (simp add: first_save_def platform_U1_def)
  have pend: "avatarFile (snd first_save) = Some photo_png"
    using handleSubmit_avatarFile [of platform_U1 ada_with_photo]
    by (simp add: first_save_def ada_with_photo_def handleFileChange_def)
  have flt: "upload_fault (fst first_save) (filePath (js ''U1'') photo_png) photo_png = None"
    using handleSubmit_platform [of platform_U1 ada_with_photo]
    by (simp add: first_save_def platform_U1_def)
  have path: "filePath (js ''U1'') photo_png = js ''U1/avatar.png''"
    by (simp add: photo_png_def path_defs js_def)
  have stored: "avatars (fst first_save) = (\<lambda>_. None)(js ''U1/avatar.png'' \<mapsto> photo_png)"
    by (simp add: first_save_def example_defs handler_defs platform_defs path_defs js_def)
  have ext: "fileExt photo_png = Some (js ''png'')"
    by (simp add: photo_png_def path_defs js_def)
  have ext': "fileExt \<lparr>file_name = js ''me.holiday.png'', file_bytes = []\<rparr> = Some (js ''png'')"
    by (simp add: path_defs js_def)
  show ?thesis
    using avatar_path_by_owner_and_extension [OF usr pend flt,
        of "\<lparr>file_name = js ''me.holiday.png'', file_bytes = []\<rparr>"]
      usr pend flt
    by (simp add: save_again_def path stored ext ext')
qed

section \<open>The pending file\<close>

text \<open>
  C10. A save never clears the pending file: after any save, successful or not, the
  pending file is the one before, so the next save of a signed-in user begins by
  uploading the same file again. Loading, typing into a field and going back to edit mode
  keep it as well; only \<open>handleFileChange\<close> with a selected file replaces it.
\<close>

theorem pending_file_survives_save:
  "avatarFile (snd (handleSubmit b s)) = avatarFile s \<and>
   avatarFile (snd (loadProfile b s)) = avatarFile s \<and>
   avatarFile (handleChange name v s) = avatarFile s \<and>
   avatarFile (beginEdit s) = avatarFile s \<and>
   avatarFile (handleFileChange None s) = avatarFile s \<and>
   avatarFile (handleFileChange (Some []) s) = avatarFile s \<and>
   avatarFile (handleFileChange (Some (g # gs)) s) = Some g \<and>
   (session_user b = Some uid \<and> avatarFile s = Some f \<longrightarrow>
      take 3 (new_calls (fst (handleSubmit b s))
                (fst (handleSubmit (fst (handleSubmit b s)) (snd (handleSubmit b s))))) =
        [GetUser, GetUser, Upload (filePath uid f) f])"
proof -
  have again: "take 3 (new_calls (fst (handleSubmit b s))
                (fst (handleSubmit (fst (handleSubmit b s)) (snd (handleSubmit b s))))) =
        [GetUser, GetUser, Upload (filePath uid f) f]"
    if usr: "session_user b = Some uid" and pend: "avatarFile s = Some f"
  proof -
    have u1: "session_user (fst (handleSubmit b s)) = Some uid"
      using handleSubmit_platform [of b s] usr by simp
    have f1: "avatarFile (snd (handleSubmit b s)) = Some f"
      using handleSubmit_avatarFile [of b s] pend by simp
    show ?thesis
      using u1 f1 by (rule handleSubmit_uploads_first)
  qed
  then show ?thesis
    by (simp add: handleSubmit_avatarFile loadProfile_avatarFile handleChange_avatarFile
        handleFileChange_def beginEdit_def)
qed

theorem pending_file_survives_save_witness:
  "session_user platform_U1 = Some (js ''U1'') \<and>
   avatarFile ada_with_photo = Some photo_png \<and>
   error (snd first_save) = [] \<and>
   avatarFile (snd first_save) = Some photo_png \<and>
   avatarFile (snd save_again) = Some photo_png \<and>
   take 3 (new_calls (fst first_save) (fst save_again)) =
     [GetUser, GetUser, Upload (js ''U1/avatar.png'') photo_png] \<and>
   avatarFile (handleFileChange (Some [photo_jpg]) (snd first_save)) = Some photo_jpg"
proof -
  have usr: "session_user platform_U1 = Some (js ''U1'')"
    by (simp add: platform_U1_def)
  have pend: "avatarFile ada_with_photo = Some photo_png"
    by (simp add: ada_with_photo_def handleFileChange_def)
  have path: "filePath (js ''U1'') photo_png = js ''U1/avatar.png''"
    by (simp add: photo_png_def path_defs js_def)
  have fine: "error (snd first_save) = []"
    by (simp add: first_save_def example_defs handler_defs platform_defs)
  show ?thesis
    using pending_file_survives_save [of platform_U1 ada_with_photo name v photo_jpg "[]"
        "js ''U1''" photo_png]
      pending_file_survives_save [of "fst first_save" "snd first_save" name v photo_jpg "[]"
        "js ''U1''" photo_png]
      usr pend fine
    by (simp add: path first_save_def [symmetric] save_again_def [symmetric])
qed

end
